theory Spec2Isabelle
  imports Main "HOL-Library.Word"
begin

unbundle bit_operations_syntax

section \<open>AMD64 architecture support layer (sys\_x86.c)\<close>

text \<open>
  A shallow embedding of the C bridge \<^verbatim>\<open>src/kernel/arch/amd64/sys_x86.c\<close>.
  Fixed-width C integers are words of the same width: \<^verbatim>\<open>uint32_t\<close> is a 32-bit
  word, \<^verbatim>\<open>uint64_t\<close> and \<^verbatim>\<open>size_t\<close> are 64-bit words, \<^verbatim>\<open>int\<close> is a 32-bit
  word read as two's complement (\<open>sint\<close>), and \<^verbatim>\<open>ssize_t\<close> (\<^verbatim>\<open>ptrdiff_t\<close>) is a
  64-bit word read as two's complement.  A conversion from \<^verbatim>\<open>int\<close> to
  \<^verbatim>\<open>uint64_t\<close> extends the sign (\<open>scast\<close>); a conversion between unsigned types
  is \<open>ucast\<close>.
\<close>

type_synonym u8 = "8 word"
type_synonym u32 = "32 word"
type_synonym u64 = "64 word"
type_synonym c_int = "32 word"
type_synonym size_t = "64 word"
type_synonym ssize_t = "64 word"

subsection \<open>Page table entry flags and MSR constants\<close>

definition X86_MMU_PG_P :: c_int where "X86_MMU_PG_P = 0x001"
definition X86_MMU_PG_RW :: c_int where "X86_MMU_PG_RW = 0x002"
definition X86_MMU_PG_U :: c_int where "X86_MMU_PG_U = 0x004"
definition X86_MMU_PG_PS :: c_int where "X86_MMU_PG_PS = 0x080"

definition X86_MSR_IA32_PAT :: u32 where "X86_MSR_IA32_PAT = 0x277"
definition X86_PAT_DEFAULT_VALUE :: u64 where "X86_PAT_DEFAULT_VALUE = 0x0007010600070106"

subsection \<open>Address predicates\<close>

text \<open>
  \<^verbatim>\<open>sys_x86_is_vaddr_canonical\<close>: the high bits are \<^verbatim>\<open>vaddr >> 48\<close>, and the
  address is accepted when they are \<^verbatim>\<open>0\<close> or \<^verbatim>\<open>0xFFFF\<close>.
\<close>

definition sys_x86_is_vaddr_canonical :: "u64 \<Rightarrow> bool" where
  "sys_x86_is_vaddr_canonical vaddr =
     (let high_bits = drop_bit 48 vaddr
      in high_bits = 0 \<or> high_bits = 0xFFFF)"

subsection \<open>Host MMU flag translator\<close>

text \<open>
  Each \<^verbatim>\<open>if (flags & m) pte_flags |= B;\<close> of the source is one rebinding of the
  accumulator.  The \<^verbatim>\<open>level\<close> argument is cast to void by every function.
\<close>

definition sys_x86_page_table_mmu_terminal_flags :: "c_int \<Rightarrow> u32 \<Rightarrow> u64" where
  "sys_x86_page_table_mmu_terminal_flags level flags =
     (let pte_flags = 0;
          pte_flags = (if flags AND 0x1 \<noteq> 0 then pte_flags OR scast X86_MMU_PG_P else pte_flags);
          pte_flags = (if flags AND 0x2 \<noteq> 0 then pte_flags OR scast X86_MMU_PG_RW else pte_flags);
          pte_flags = (if flags AND 0x4 \<noteq> 0 then pte_flags OR scast X86_MMU_PG_U else pte_flags)
      in pte_flags)"

text \<open>
  \<^verbatim>\<open>flags & ~X86_MMU_PG_PS\<close>: the complement is taken on the \<^verbatim>\<open>int\<close> constant
  and then converted to \<^verbatim>\<open>uint64_t\<close>, which extends its sign.
\<close>

definition sys_x86_page_table_mmu_split_flags :: "c_int \<Rightarrow> u64 \<Rightarrow> u64" where
  "sys_x86_page_table_mmu_split_flags level flags = flags AND scast (NOT X86_MMU_PG_PS)"

definition sys_x86_page_table_mmu_pt_flags_to_mmu_flags :: "u64 \<Rightarrow> c_int \<Rightarrow> u32" where
  "sys_x86_page_table_mmu_pt_flags_to_mmu_flags flags level =
     (let mmu_flags = 0;
          mmu_flags = (if flags AND scast X86_MMU_PG_P \<noteq> 0 then mmu_flags OR 0x1 else mmu_flags);
          mmu_flags = (if flags AND scast X86_MMU_PG_RW \<noteq> 0 then mmu_flags OR 0x2 else mmu_flags);
          mmu_flags = (if flags AND scast X86_MMU_PG_U \<noteq> 0 then mmu_flags OR 0x4 else mmu_flags)
      in mmu_flags)"

subsection \<open>EPT flag translator\<close>

definition sys_x86_page_table_ept_terminal_flags :: "c_int \<Rightarrow> u32 \<Rightarrow> u64" where
  "sys_x86_page_table_ept_terminal_flags level flags =
     (let ept_flags = 0x3;
          ept_flags = (if flags AND 0x4 \<noteq> 0 then ept_flags OR 0x1 else ept_flags)
      in ept_flags)"

definition sys_x86_page_table_ept_split_flags :: "c_int \<Rightarrow> u64 \<Rightarrow> u64" where
  "sys_x86_page_table_ept_split_flags level flags = flags"

definition sys_x86_page_table_ept_pt_flags_to_mmu_flags :: "u64 \<Rightarrow> c_int \<Rightarrow> u32" where
  "sys_x86_page_table_ept_pt_flags_to_mmu_flags flags level =
     (let mmu_flags = 0;
          mmu_flags = (if flags AND 0x1 \<noteq> 0 then mmu_flags OR 0x1 else mmu_flags);
          mmu_flags = (if flags AND 0x2 \<noteq> 0 then mmu_flags OR 0x2 else mmu_flags);
          mmu_flags = (if flags AND 0x4 \<noteq> 0 then mmu_flags OR 0x4 else mmu_flags)
      in mmu_flags)"

subsection \<open>The register state of one CPU\<close>

text \<open>
  The functions below act on the CPU through inline assembly.  The state they can observe
  or change is CR0, the model-specific registers, the extended control registers and the
  answers of the \<^verbatim>\<open>cpuid\<close> instruction (a table of the hardware, indexed by the
  EAX and ECX inputs).  The field \<open>executed\<close> records, in order, each instruction that
  was issued, so that "the instruction was not executed" is a statement about the state.
  An instruction is modelled by its architectural effect on these registers; a CPU
  exception (a privileged instruction at the wrong privilege level, an unsupported MSR) is
  outside the model, as the layer does not catch it.
\<close>

datatype hw_event =
    Ev_rdmsr u32
  | Ev_wrmsr u32 u32 u32
  | Ev_cpuid u32 u32
  | Ev_xgetbv u32
  | Ev_mov_from_cr0
  | Ev_mov_to_cr0 u64

record cpu_state =
  cr0 :: u64
  msrs :: "u32 \<Rightarrow> u64"
  xcrs :: "u32 \<Rightarrow> u64"
  cpuid_table :: "u32 \<Rightarrow> u32 \<Rightarrow> u32 \<times> u32 \<times> u32 \<times> u32"
  executed :: "hw_event list"

text \<open>
  The instructions: \<^verbatim>\<open>rdmsr\<close> and \<^verbatim>\<open>xgetbv\<close> return the register selected by
  ECX in EDX:EAX, \<^verbatim>\<open>wrmsr\<close> stores EDX:EAX in it, \<^verbatim>\<open>cpuid\<close> returns
  (EAX, EBX, ECX, EDX) for the leaf in EAX and the sub-leaf in ECX.
\<close>

definition insn_rdmsr :: "u32 \<Rightarrow> cpu_state \<Rightarrow> (u32 \<times> u32) \<times> cpu_state" where
  "insn_rdmsr c s =
     ((ucast (msrs s c), ucast (drop_bit 32 (msrs s c))),
      s\<lparr>executed := executed s @ [Ev_rdmsr c]\<rparr>)"

definition insn_wrmsr :: "u32 \<Rightarrow> u32 \<Rightarrow> u32 \<Rightarrow> cpu_state \<Rightarrow> cpu_state" where
  "insn_wrmsr c a d s =
     s\<lparr>msrs := (msrs s)(c := push_bit 32 (ucast d) OR ucast a),
       executed := executed s @ [Ev_wrmsr c a d]\<rparr>"

definition insn_cpuid :: "u32 \<Rightarrow> u32 \<Rightarrow> cpu_state \<Rightarrow> (u32 \<times> u32 \<times> u32 \<times> u32) \<times> cpu_state" where
  "insn_cpuid a c s = (cpuid_table s a c, s\<lparr>executed := executed s @ [Ev_cpuid a c]\<rparr>)"

definition insn_xgetbv :: "u32 \<Rightarrow> cpu_state \<Rightarrow> (u32 \<times> u32) \<times> cpu_state" where
  "insn_xgetbv c s =
     ((ucast (xcrs s c), ucast (drop_bit 32 (xcrs s c))),
      s\<lparr>executed := executed s @ [Ev_xgetbv c]\<rparr>)"

definition insn_mov_from_cr0 :: "cpu_state \<Rightarrow> u64 \<times> cpu_state" where
  "insn_mov_from_cr0 s = (cr0 s, s\<lparr>executed := executed s @ [Ev_mov_from_cr0]\<rparr>)"

definition insn_mov_to_cr0 :: "u64 \<Rightarrow> cpu_state \<Rightarrow> cpu_state" where
  "insn_mov_to_cr0 v s = s\<lparr>cr0 := v, executed := executed s @ [Ev_mov_to_cr0 v]\<rparr>"

subsection \<open>Assembly utilities\<close>

text \<open>The static inline wrappers \<^verbatim>\<open>rdmsr\<close> and \<^verbatim>\<open>wrmsr\<close> of the source.\<close>

definition rdmsr :: "u32 \<Rightarrow> cpu_state \<Rightarrow> u64 \<times> cpu_state" where
  "rdmsr msr s =
     (let ((low, high), s') = insn_rdmsr msr s
      in (push_bit 32 (ucast high) OR ucast low, s'))"

definition wrmsr :: "u32 \<Rightarrow> u64 \<Rightarrow> cpu_state \<Rightarrow> cpu_state" where
  "wrmsr msr val s =
     (let low = (ucast (val AND 0xFFFFFFFF) :: u32);
          high = (ucast (drop_bit 32 val) :: u32)
      in insn_wrmsr msr low high s)"

subsection \<open>Extended register size and CPUID probe\<close>

text \<open>
  \<^verbatim>\<open>sys_x86_extended_register_size\<close> issues \<^verbatim>\<open>cpuid\<close> with EAX = 1 and leaves
  ECX as it happens to be: the argument \<open>ecx_in\<close> is that value.
\<close>

definition sys_x86_extended_register_size :: "u32 \<Rightarrow> cpu_state \<Rightarrow> size_t \<times> cpu_state" where
  "sys_x86_extended_register_size ecx_in s =
     (let ((eax, ebx, ecx, edx), s1) = insn_cpuid 1 ecx_in s
      in if ecx AND push_bit 26 1 = 0 then (512, s1)
         else
           (let ((eax, edx), s2) = insn_xgetbv 0 s1;
                xcr0 = (push_bit 32 (ucast edx) OR ucast eax :: u64);
                size = 512;
                size = (if xcr0 AND push_bit 2 1 \<noteq> 0 then size + 256 else size)
            in (size, s2)))"

record x86_cpuid_leaf =
  eax :: u32
  ebx :: u32
  ecx :: u32
  edx :: u32

text \<open>
  \<^verbatim>\<open>sys_x86_get_cpuid_subleaf\<close> writes through the pointer \<^verbatim>\<open>out\<close>: the model
  takes the structure it points to and returns it as the call leaves it.
\<close>

definition sys_x86_get_cpuid_subleaf ::
  "u32 \<Rightarrow> u32 \<Rightarrow> x86_cpuid_leaf \<Rightarrow> cpu_state \<Rightarrow> bool \<times> x86_cpuid_leaf \<times> cpu_state" where
  "sys_x86_get_cpuid_subleaf leaf subleaf out s =
     (if leaf = 0 then (False, out, s)
      else
        (let ((a, b, c, d), s') = insn_cpuid leaf subleaf s
         in (True, out\<lparr>eax := a, ebx := b, ecx := c, edx := d\<rparr>, s')))"

subsection \<open>MMU initialisation and PAT synchronisation\<close>

definition sys_x86_mmu_early_init :: "cpu_state \<Rightarrow> cpu_state" where
  "sys_x86_mmu_early_init s =
     (let s1 = wrmsr X86_MSR_IA32_PAT X86_PAT_DEFAULT_VALUE s;
          (cr0v, s2) = insn_mov_from_cr0 s1;
          cr0v = cr0v OR push_bit 16 1
      in insn_mov_to_cr0 cr0v s2)"

definition sys_x86_pat_sync :: "u64 \<Rightarrow> cpu_state \<Rightarrow> cpu_state" where
  "sys_x86_pat_sync targets s =
     (if targets = 1 then s
      else (let (current_pat, s') = rdmsr X86_MSR_IA32_PAT s in s'))"

subsection \<open>User copy\<close>

text \<open>
  Memory holds a byte at each mapped address and nothing elsewhere.  The hardware accepts
  a virtual address only in canonical form (bits 63 to 47 all equal: the lower half up to
  \<^verbatim>\<open>0x00007FFFFFFFFFFF\<close> and the upper half from \<^verbatim>\<open>0xFFFF800000000000\<close>); an
  access to any other address, or to an unmapped one, raises a CPU exception.
  \<^verbatim>\<open>sys_x86_copy_to_or_from_user\<close> casts \<^verbatim>\<open>fault_return\<close> to void and installs no
  recovery, so a call in which the copy faults does not come back to its
  \<^verbatim>\<open>return\<close>: its outcome is \<open>Inl Page_fault\<close>.
\<close>

type_synonym memory = "u64 \<Rightarrow> u8 option"

datatype copy_error = Page_fault | Undefined_overlap

definition hw_canonical :: "u64 \<Rightarrow> bool" where
  "hw_canonical a = (a < 0x0000800000000000 \<or> 0xFFFF800000000000 \<le> a)"

definition accessible :: "memory \<Rightarrow> u64 \<Rightarrow> bool" where
  "accessible mem a = (hw_canonical a \<and> mem a \<noteq> None)"

fun range_accessible :: "memory \<Rightarrow> u64 \<Rightarrow> nat \<Rightarrow> bool" where
  "range_accessible mem a 0 = True"
| "range_accessible mem a (Suc n) = (accessible mem a \<and> range_accessible mem (a + 1) n)"

text \<open>
  \<^verbatim>\<open>__builtin_memcpy\<close> is the compiler's.  Its behaviour is undefined when the two
  regions of \<open>len\<close> bytes overlap (outcome \<open>Inl Undefined_overlap\<close>); otherwise it
  copies \<open>len\<close> bytes from \<open>src\<close> to \<open>dst\<close>, one after the other, and stops with
  the exception at the first byte it cannot read or write.
\<close>

definition regions_overlap :: "u64 \<Rightarrow> u64 \<Rightarrow> size_t \<Rightarrow> bool" where
  "regions_overlap dst src len = (dst - src < len \<or> src - dst < len)"

fun copy_bytes :: "memory \<Rightarrow> u64 \<Rightarrow> u64 \<Rightarrow> nat \<Rightarrow> copy_error + memory" where
  "copy_bytes mem d s 0 = Inr mem"
| "copy_bytes mem d s (Suc n) =
     (if accessible mem s \<and> accessible mem d
      then copy_bytes (mem(d := mem s)) (d + 1) (s + 1) n
      else Inl Page_fault)"

definition builtin_memcpy :: "memory \<Rightarrow> u64 \<Rightarrow> u64 \<Rightarrow> size_t \<Rightarrow> copy_error + memory" where
  "builtin_memcpy mem dst src len =
     (if regions_overlap dst src len then Inl Undefined_overlap
      else copy_bytes mem dst src (unat len))"

text \<open>
  The function itself: the copy, then \<^verbatim>\<open>return (ssize_t)len\<close>, reached only when
  the copy has completed.
\<close>

definition sys_x86_copy_to_or_from_user ::
  "memory \<Rightarrow> u64 \<Rightarrow> u64 \<Rightarrow> size_t \<Rightarrow> u64 \<Rightarrow> copy_error + (memory \<times> ssize_t)" where
  "sys_x86_copy_to_or_from_user mem dst src len fault_return =
     (case builtin_memcpy mem dst src len of
        Inl e \<Rightarrow> Inl e
      | Inr mem' \<Rightarrow> Inr (mem', ucast len))"

text \<open>A memory with the two lowest 4 KiB pages mapped, each byte holding its address.\<close>

definition low_page_memory :: memory where
  "low_page_memory = (\<lambda>a. if a < 0x2000 then Some (ucast a) else None)"

subsection \<open>Concrete CPU states\<close>

text \<open>
  Three register states on which the functions are run below: a CPU at boot with CR0.WP
  clear, a CPU whose \<^verbatim>\<open>cpuid\<close> leaf 1 reports XSAVE (ECX bit 26) and whose XCR0
  enables x87, SSE and AVX, and a CPU whose leaf 1 does not report XSAVE.
\<close>

definition cpu_boot :: cpu_state where
  "cpu_boot =
     \<lparr>cr0 = 0x80000011, msrs = (\<lambda>_. 0), xcrs = (\<lambda>_. 0),
      cpuid_table = (\<lambda>_ _. (0, 0, 0, 0)), executed = []\<rparr>"

definition cpu_xsave_avx :: cpu_state where
  "cpu_xsave_avx =
     \<lparr>cr0 = 0x80050033, msrs = (\<lambda>_. 0), xcrs = (\<lambda>_. 7),
      cpuid_table =
        (\<lambda>a c. if a = 1 then (0x306A9, 0x100800, 0x7FBAE3BF, 0xBFEBFBFF) else (0, 0, 0, 0)),
      executed = []\<rparr>"

definition cpu_legacy :: cpu_state where
  "cpu_legacy =
     \<lparr>cr0 = 0x80050033, msrs = (\<lambda>_. 0), xcrs = (\<lambda>_. 7),
      cpuid_table =
        (\<lambda>a c. if a = 1 then (0x6FB, 0x100800, 0xE3BD, 0xBFEBFBFF) else (0, 0, 0, 0)),
      executed = []\<rparr>"

section \<open>Auxiliary facts on words\<close>

lemmas pg_flag_defs = X86_MMU_PG_P_def X86_MMU_PG_RW_def X86_MMU_PG_U_def X86_MMU_PG_PS_def

text \<open>A test \<^verbatim>\<open>x & m\<close> against a one-bit mask reads that bit.\<close>

lemma test_mask_1: "(F AND 1 \<noteq> 0) = bit F 0" for F :: "'a::len word"
  by (simp add: and_one_eq bit_0 mod_2_eq_odd flip: even_iff_mod_2_eq_zero)

lemma test_mask_2: "(F AND 2 \<noteq> 0) = bit F (Suc 0)" for F :: "'a::len word"
  using and_exp_eq_0_iff_not_bit[of F 1] by simp

lemma test_mask_4: "(F AND 4 \<noteq> 0) = bit F 2" for F :: "'a::len word"
  using and_exp_eq_0_iff_not_bit[of F 2] by simp

lemma test_mask_xsave: "(c AND 0x4000000 = 0) = (\<not> bit c 26)" for c :: u32
  using and_exp_eq_0_iff_not_bit[of c 26] by simp

lemma bit_int_2: "bit (2 :: int) n \<longleftrightarrow> n = 1"
  using bit_exp_iff[where ?'a = int, of 1 n] by auto

lemma bit_int_4: "bit (4 :: int) n \<longleftrightarrow> n = 2"
  using bit_exp_iff[where ?'a = int, of 2 n] by auto

lemma bit_int_wp: "bit (65536 :: int) n \<longleftrightarrow> n = 16"
  using bit_exp_iff[where ?'a = int, of 16 n] by simp

lemma bit_u64_wp: "bit (0x10000 :: u64) n \<longleftrightarrow> n = 16"
  by (auto simp: bit_int_wp)

lemma below_3: "n < 3 \<longleftrightarrow> n = 0 \<or> n = 1 \<or> n = (2::nat)"
  by auto

lemma low3_take_bit: "F AND 7 = take_bit 3 F" for F :: u32
  by (simp add: take_bit_eq_mask mask_eq_exp_minus_1)

text \<open>The three low bits of a portable flag word, one by one.\<close>

lemma low3_bits:
  "F AND 7 =
     (if bit F 0 then 1 else 0) OR (if bit F (Suc 0) then 2 else 0) OR (if bit F 2 then 4 else 0)"
  for F :: u32
  unfolding low3_take_bit
  apply (rule bit_word_eqI)
  apply (simp only: bit_take_bit_iff bit_or_iff below_3)
  apply (cases "bit F 0"; cases "bit F (Suc 0)"; cases "bit F 2";
         simp add: bit_int_2 bit_int_4 bit_1_iff)
  apply (auto intro: gr0I)
  done

text \<open>EDX:EAX put together again is the 64-bit register that was split.\<close>

lemma edx_eax_join:
  "push_bit 32 (ucast (ucast (drop_bit 32 w) :: u32)) OR ucast (ucast w :: u32) = w"
  for w :: u64
  by (rule bit_word_eqI) (auto simp: bit_simps)

text \<open>The two's-complement reading of a 64-bit word.\<close>

lemma sint_u64_cases: "sint w = (if w < 2 ^ 63 then uint w else uint w - 2 ^ 64)" for w :: u64
proof -
  have r: "0 \<le> uint w" "uint w < 2 ^ 64"
    using uint_bounded[of w] by simp_all
  have s: "sint w = (uint w + 2 ^ 63) mod 2 ^ 64 - 2 ^ 63"
    by (simp add: sint_uint signed_take_bit_eq_take_bit_shift take_bit_eq_mod)
  have l: "w < 2 ^ 63 \<longleftrightarrow> uint w < 2 ^ 63"
    by (simp add: word_less_def)
  show ?thesis
  proof (cases "uint w < 2 ^ 63")
    case True
    then have "(uint w + 2 ^ 63) mod 2 ^ 64 = uint w + 2 ^ 63"
      using r by simp
    then show ?thesis using True s l by simp
  next
    case False
    then have "(uint w + 2 ^ 63) mod 2 ^ 64 = uint w + 2 ^ 63 - 2 ^ 64"
      using r by (simp add: mod_pos_geq)
    then show ?thesis using False s l by simp
  qed
qed

section \<open>The copy loop\<close>

text \<open>
  A store to an accessible address leaves every address as accessible as it was; a copy
  that completes has touched each byte of its destination; a copy whose two ranges are
  accessible completes.
\<close>

lemma accessible_store:
  "accessible mem s \<Longrightarrow> accessible mem d \<Longrightarrow> accessible (mem(d := mem s)) a = accessible mem a"
  by (auto simp: accessible_def)

lemma copy_bytes_touches:
  "copy_bytes mem d s n = Inr mem' \<Longrightarrow> i < n \<Longrightarrow> accessible mem (d + of_nat i)"
proof (induction n arbitrary: mem d s i)
  case 0
  then show ?case by simp
next
  case (Suc n)
  from Suc.prems(1) have acc: "accessible mem s" "accessible mem d"
    and rest: "copy_bytes (mem(d := mem s)) (d + 1) (s + 1) n = Inr mem'"
    by (auto split: if_splits)
  show ?case
  proof (cases i)
    case 0
    then show ?thesis using acc by simp
  next
    case (Suc j)
    then have "j < n" using Suc.prems(2) by simp
    from Suc.IH[OF rest this] have "accessible (mem(d := mem s)) (d + 1 + of_nat j)" .
    then have "accessible mem (d + 1 + of_nat j)"
      using accessible_store[OF acc] by simp
    then show ?thesis using Suc by (simp add: add.assoc)
  qed
qed

lemma copy_bytes_returns:
  "range_accessible mem s n \<Longrightarrow> range_accessible mem d n \<Longrightarrow> \<exists>mem'. copy_bytes mem d s n = Inr mem'"
proof (induction n arbitrary: mem d s)
  case 0
  then show ?case by simp
next
  case (Suc n)
  then have acc: "accessible mem s" "accessible mem d" by simp_all
  have pres: "range_accessible (mem(d := mem s)) a k = range_accessible mem a k" for a k
    by (induction k arbitrary: a) (simp_all add: accessible_store[OF acc])
  from Suc.prems have "range_accessible (mem(d := mem s)) (s + 1) n"
    "range_accessible (mem(d := mem s)) (d + 1) n"
    by (simp_all add: pres)
  from Suc.IH[OF this] obtain m' where
    "copy_bytes (mem(d := mem s)) (d + 1) (s + 1) n = Inr m'" by blast
  with acc have "copy_bytes mem d s (Suc n) = Inr m'" by (simp del: fun_upd_apply)
  then show ?case by blast
qed

text \<open>
  Among \<open>d\<close>, \<open>d + 2^47\<close> and \<open>d + 2^48\<close> one address is not canonical, so no
  copy of more than \<open>2^48\<close> bytes completes.
\<close>

lemma some_noncanonical:
  "\<not> hw_canonical d \<or> \<not> hw_canonical (d + 0x800000000000) \<or> \<not> hw_canonical (d + 0x1000000000000)"
proof -
  have r: "0 \<le> uint d" "uint d < 18446744073709551616"
    using uint_bounded[of d] by simp_all
  have a1: "uint (d + 0x800000000000) = (uint d + 140737488355328) mod 18446744073709551616"
    by (simp add: uint_word_ariths)
  have a2: "uint (d + 0x1000000000000) = (uint d + 281474976710656) mod 18446744073709551616"
    by (simp add: uint_word_ariths)
  consider (lo) "uint d < 140737488355328"
    | (mid) "140737488355328 \<le> uint d" "uint d < 18446603336221196288"
    | (hi) "18446603336221196288 \<le> uint d"
    by linarith
  then show ?thesis
  proof cases
    case lo
    then have "uint (d + 0x800000000000) = uint d + 140737488355328"
      using r a1 by simp
    then have "\<not> hw_canonical (d + 0x800000000000)"
      using lo r by (simp add: hw_canonical_def word_less_def word_le_def)
    then show ?thesis by simp
  next
    case mid
    then have "\<not> hw_canonical d"
      by (simp add: hw_canonical_def word_less_def word_le_def)
    then show ?thesis by simp
  next
    case hi
    then have "(uint d + 281474976710656) mod 18446744073709551616
                 = uint d + 281474976710656 - 18446744073709551616"
      using r by (simp add: mod_pos_geq)
    then have "uint (d + 0x1000000000000) = uint d + 281474976710656 - 18446744073709551616"
      using a2 by simp
    then have "\<not> hw_canonical (d + 0x1000000000000)"
      using hi r by (simp add: hw_canonical_def word_less_def word_le_def)
    then show ?thesis by simp
  qed
qed

lemma copy_bytes_length_bound:
  assumes "copy_bytes mem d s n = Inr mem'"
  shows "n \<le> 281474976710656"
proof (rule ccontr)
  assume "\<not> n \<le> 281474976710656"
  then have big: "0 < n" "140737488355328 < n" "281474976710656 < n" by simp_all
  have "accessible mem (d + of_nat 0)"
    by (rule copy_bytes_touches[OF assms big(1)])
  moreover have "accessible mem (d + of_nat 140737488355328)"
    by (rule copy_bytes_touches[OF assms big(2)])
  moreover have "accessible mem (d + of_nat 281474976710656)"
    by (rule copy_bytes_touches[OF assms big(3)])
  ultimately have "hw_canonical d" "hw_canonical (d + 0x800000000000)"
    "hw_canonical (d + 0x1000000000000)"
    by (simp_all add: accessible_def)
  then show False using some_noncanonical[of d] by simp
qed

lemma copy_returns_small_length:
  assumes "sys_x86_copy_to_or_from_user mem dst src len fr = Inr (mem', r)"
  shows "r = len \<and> len \<le> 0x1000000000000"
proof (cases "builtin_memcpy mem dst src len")
  case (Inl e)
  with assms show ?thesis by (simp add: sys_x86_copy_to_or_from_user_def)
next
  case (Inr m)
  with assms have r: "r = len" by (simp add: sys_x86_copy_to_or_from_user_def)
  have "\<not> regions_overlap dst src len"
  proof
    assume "regions_overlap dst src len"
    with Inr show False by (simp only: builtin_memcpy_def if_True sum.distinct)
  qed
  with Inr have "copy_bytes mem dst src (unat len) = Inr m"
    by (simp only: builtin_memcpy_def if_False)
  then have "unat len \<le> 281474976710656"
    by (rule copy_bytes_length_bound)
  then have "len \<le> 0x1000000000000"
    by (simp add: word_le_nat_alt)
  with r show ?thesis by simp
qed

lemma unat_4: "unat (4 :: u64) = Suc (Suc (Suc (Suc 0)))"
  by simp

text \<open>The two error outcomes, on concrete calls.\<close>

lemma copy_faults_on_unmapped_source:
  "sys_x86_copy_to_or_from_user low_page_memory 0x1800 0x1FFE 4 0 = Inl Page_fault"
  unfolding sys_x86_copy_to_or_from_user_def builtin_memcpy_def unat_4
  by (simp add: regions_overlap_def accessible_def hw_canonical_def low_page_memory_def)

lemma memcpy_overlap_undefined:
  "builtin_memcpy low_page_memory 0 0 0x8000000000000000 = Inl Undefined_overlap"
  by (simp add: builtin_memcpy_def regions_overlap_def)

section \<open>The translators, bit by bit\<close>

lemma mmu_terminal_bits:
  "sys_x86_page_table_mmu_terminal_flags L F =
     (if bit F 0 then 1 else 0) OR (if bit F (Suc 0) then 2 else 0) OR (if bit F 2 then 4 else 0)"
  by (simp add: sys_x86_page_table_mmu_terminal_flags_def pg_flag_defs
      test_mask_1 test_mask_2 test_mask_4 Let_def)

lemma mmu_decode_bits:
  "sys_x86_page_table_mmu_pt_flags_to_mmu_flags A L =
     (if bit A 0 then 1 else 0) OR (if bit A (Suc 0) then 2 else 0) OR (if bit A 2 then 4 else 0)"
  by (simp add: sys_x86_page_table_mmu_pt_flags_to_mmu_flags_def pg_flag_defs
      test_mask_1 test_mask_2 test_mask_4 Let_def)

lemma mmu_decode_terminal:
  "sys_x86_page_table_mmu_pt_flags_to_mmu_flags (sys_x86_page_table_mmu_terminal_flags L F) L' =
     F AND 7"
  unfolding mmu_terminal_bits low3_bits
  by (simp add: mmu_decode_bits)

lemma ept_terminal_value: "sys_x86_page_table_ept_terminal_flags L F = 3"
  by (simp add: sys_x86_page_table_ept_terminal_flags_def)

lemma ept_decode_3: "sys_x86_page_table_ept_pt_flags_to_mmu_flags 3 L = 3"
  by (simp add: sys_x86_page_table_ept_pt_flags_to_mmu_flags_def)

lemma rdmsr_value: "rdmsr m s = (msrs s m, s\<lparr>executed := executed s @ [Ev_rdmsr m]\<rparr>)"
  by (simp add: rdmsr_def insn_rdmsr_def edx_eax_join)

lemma wrmsr_pat_default:
  "msrs (wrmsr X86_MSR_IA32_PAT X86_PAT_DEFAULT_VALUE s) 0x277 = 0x0007010600070106"
  by (simp add: wrmsr_def insn_wrmsr_def X86_MSR_IA32_PAT_def X86_PAT_DEFAULT_VALUE_def
      Let_def drop_bit_eq_div)

lemma pat_sync_other_targets:
  "targets \<noteq> 1 \<Longrightarrow>
     sys_x86_pat_sync targets s = s\<lparr>executed := executed s @ [Ev_rdmsr 0x277]\<rparr>"
  by (simp add: sys_x86_pat_sync_def rdmsr_value X86_MSR_IA32_PAT_def)

section \<open>Claims\<close>

subsection \<open>EPT terminal flags on the literal inputs\<close>

text \<open>
  C1. The source starts from \<^verbatim>\<open>0x3\<close> (R | W) and, for a portable flag word with
  bit \<^verbatim>\<open>0x4\<close>, ORs in \<^verbatim>\<open>0x1\<close> under the comment "Execute".  Bit \<^verbatim>\<open>0x1\<close> is
  already part of the base, so the result at \<^verbatim>\<open>(0, 0x4)\<close> is \<^verbatim>\<open>0x3\<close>, not the
  \<^verbatim>\<open>0x7\<close> (R | W | X) that the claim expects; at \<^verbatim>\<open>(0, 0x0)\<close> it is \<^verbatim>\<open>0x3\<close>
  as claimed.
\<close>

theorem ept_terminal_flags_scenario_D:
  "sys_x86_page_table_ept_terminal_flags 0 0x4 = 0x3
   \<and> sys_x86_page_table_ept_terminal_flags 0 0x0 = 0x3"
  by (simp add: sys_x86_page_table_ept_terminal_flags_def)

subsection \<open>EPT round trip\<close>

text \<open>
  C2, as stated, fails: for the empty portable flag set at level 0, decoding the encoded
  entry and masking with \<^verbatim>\<open>{1,2,4}\<close> gives \<^verbatim>\<open>3\<close>, not \<^verbatim>\<open>0\<close>.
\<close>

theorem ept_round_trip_fails_at_empty_flags:
  "sys_x86_page_table_ept_pt_flags_to_mmu_flags
     (sys_x86_page_table_ept_terminal_flags 0 0) 0 AND 7 \<noteq> 0"
  by (simp add: sys_x86_page_table_ept_pt_flags_to_mmu_flags_def
      sys_x86_page_table_ept_terminal_flags_def)

text \<open>
  C2, amended.  The EPT encoder grants read and write to every terminal entry.  For every
  portable flag set \<open>F\<close> and level \<open>L\<close> the decoded flags therefore have READ (1) and
  WRITE (2) both set, whatever \<open>F\<close> holds in these two bits; and for
  \<open>F = 3\<close> (PRESENT | WRITE) the round trip masked with \<^verbatim>\<open>{1,2,4}\<close> returns exactly
  \<open>F\<close>.
\<close>

theorem ept_round_trip_read_write:
  "sys_x86_page_table_ept_pt_flags_to_mmu_flags
     (sys_x86_page_table_ept_terminal_flags L F) L AND 3 = 3
   \<and> sys_x86_page_table_ept_pt_flags_to_mmu_flags
       (sys_x86_page_table_ept_terminal_flags L 3) L AND 7 = 3"
  by (simp add: ept_terminal_value ept_decode_3)

subsection \<open>Split after terminal\<close>

text \<open>
  C3, as stated, fails for the EPT table: its split is the identity, so the page-size bit
  \<^verbatim>\<open>0x080\<close> that was ORed into a terminal entry is still there afterwards.
\<close>

theorem ept_split_keeps_page_size_bit:
  "sys_x86_page_table_ept_split_flags 0 (sys_x86_page_table_ept_terminal_flags 0 0 OR 0x080)
     \<noteq> sys_x86_page_table_ept_terminal_flags 0 0"
  by (simp add: sys_x86_page_table_ept_split_flags_def
      sys_x86_page_table_ept_terminal_flags_def)

text \<open>
  C3, amended.  For every level \<open>L\<close> and portable flag set \<open>F\<close>: the host MMU split of
  \<open>terminal(L, F) | PS\<close> is \<open>terminal(L, F)\<close>, the page-size bit \<^verbatim>\<open>0x080\<close> and
  nothing else being removed; the EPT split is the identity, so it returns
  \<open>terminal(L, F) | PS\<close> unchanged, and \<open>terminal(L, F)\<close> when given that.
\<close>

theorem split_flags_of_terminal:
  "sys_x86_page_table_mmu_split_flags L (sys_x86_page_table_mmu_terminal_flags L F OR 0x080)
     = sys_x86_page_table_mmu_terminal_flags L F
   \<and> sys_x86_page_table_ept_split_flags L (sys_x86_page_table_ept_terminal_flags L F OR 0x080)
     = sys_x86_page_table_ept_terminal_flags L F OR 0x080
   \<and> sys_x86_page_table_ept_split_flags L (sys_x86_page_table_ept_terminal_flags L F)
     = sys_x86_page_table_ept_terminal_flags L F"
proof (intro conjI)
  show "sys_x86_page_table_mmu_split_flags L (sys_x86_page_table_mmu_terminal_flags L F OR 0x080)
     = sys_x86_page_table_mmu_terminal_flags L F"
    unfolding mmu_terminal_bits
    by (simp add: sys_x86_page_table_mmu_split_flags_def pg_flag_defs)
qed (simp_all add: sys_x86_page_table_ept_split_flags_def)

subsection \<open>Host MMU round trip\<close>

text \<open>
  C4. For every portable flag set \<open>F\<close> within \<^verbatim>\<open>{1,2,4}\<close> (that is, \<open>F AND 7 = F\<close>)
  and every level \<open>L\<close>, decoding the host terminal flags of \<open>F\<close> gives \<open>F\<close> back; and
  neither the encoder nor the decoder depends on its level argument.
\<close>

theorem mmu_round_trip:
  "F AND 7 = F \<Longrightarrow>
     sys_x86_page_table_mmu_pt_flags_to_mmu_flags
       (sys_x86_page_table_mmu_terminal_flags L F) L = F
     \<and> sys_x86_page_table_mmu_terminal_flags L F = sys_x86_page_table_mmu_terminal_flags L' F
     \<and> sys_x86_page_table_mmu_pt_flags_to_mmu_flags A L
         = sys_x86_page_table_mmu_pt_flags_to_mmu_flags A L'"
proof (intro conjI)
  assume sub: "F AND 7 = F"
  show "sys_x86_page_table_mmu_pt_flags_to_mmu_flags
          (sys_x86_page_table_mmu_terminal_flags L F) L = F"
    using mmu_decode_terminal[of L F L] sub by simp
  show "sys_x86_page_table_mmu_terminal_flags L F = sys_x86_page_table_mmu_terminal_flags L' F"
    by (simp only: mmu_terminal_bits)
  show "sys_x86_page_table_mmu_pt_flags_to_mmu_flags A L
          = sys_x86_page_table_mmu_pt_flags_to_mmu_flags A L'"
    by (simp only: mmu_decode_bits)
qed

text \<open>C4 at \<open>F = 5\<close> (PRESENT | USER), levels 1 and 3, and the entry \<^verbatim>\<open>0x87\<close>.\<close>

theorem mmu_round_trip_witness:
  "(5 :: u32) AND 7 = 5
   \<and> sys_x86_page_table_mmu_pt_flags_to_mmu_flags
       (sys_x86_page_table_mmu_terminal_flags 1 5) 1 = 5
   \<and> sys_x86_page_table_mmu_terminal_flags 1 5 = sys_x86_page_table_mmu_terminal_flags 3 5
   \<and> sys_x86_page_table_mmu_pt_flags_to_mmu_flags 0x87 1
       = sys_x86_page_table_mmu_pt_flags_to_mmu_flags 0x87 3"
proof -
  have sub: "(5 :: u32) AND 7 = 5" by simp
  from sub mmu_round_trip[OF sub, of 1 3 "0x87"] show ?thesis by (rule conjI)
qed

subsection \<open>Canonical addresses\<close>

text \<open>
  C5. The source shifts the address right by 48 and accepts it when the result is
  \<^verbatim>\<open>0\<close> or \<^verbatim>\<open>0xFFFF\<close>, so bit 47 takes no part in the test.  On the four
  addresses of Scenario A it returns true on \<^verbatim>\<open>0x00007FFFFFFFFFFF\<close> and
  \<^verbatim>\<open>0xFFFF800000000000\<close> and false on \<^verbatim>\<open>0x0001000000000000\<close>, as claimed, and
  true on \<^verbatim>\<open>0x0000800000000000\<close> (bit 47 set, bits 63 to 48 clear), where the claim
  expects false.
\<close>

theorem is_vaddr_canonical_scenario_A:
  "sys_x86_is_vaddr_canonical 0x00007FFFFFFFFFFF
   \<and> sys_x86_is_vaddr_canonical 0x0000800000000000
   \<and> sys_x86_is_vaddr_canonical 0xFFFF800000000000
   \<and> \<not> sys_x86_is_vaddr_canonical 0x0001000000000000"
  by (simp add: sys_x86_is_vaddr_canonical_def Let_def drop_bit_eq_div)

subsection \<open>Early MMU initialisation\<close>

text \<open>
  C6. From every register state, \<^verbatim>\<open>sys_x86_mmu_early_init\<close> leaves CR0 with bit 16
  (WP) set, IA32\_PAT (MSR \<^verbatim>\<open>0x277\<close>) holding exactly \<^verbatim>\<open>0x0007010600070106\<close>, and
  every CR0 bit other than bit 16 as it was.
\<close>

theorem mmu_early_init_post:
  "bit (cr0 (sys_x86_mmu_early_init s)) 16
   \<and> msrs (sys_x86_mmu_early_init s) 0x277 = 0x0007010600070106
   \<and> (\<forall>n. n \<noteq> 16 \<longrightarrow> bit (cr0 (sys_x86_mmu_early_init s)) n = bit (cr0 s) n)"
proof (intro conjI allI impI)
  have cr: "cr0 (sys_x86_mmu_early_init s) = cr0 s OR 0x10000"
    by (simp add: sys_x86_mmu_early_init_def Let_def insn_mov_from_cr0_def insn_mov_to_cr0_def
        wrmsr_def insn_wrmsr_def)
  show "bit (cr0 (sys_x86_mmu_early_init s)) 16"
    unfolding cr by (simp add: bit_or_iff bit_u64_wp)
  show "msrs (sys_x86_mmu_early_init s) 0x277 = 0x0007010600070106"
    using wrmsr_pat_default[of s]
    by (simp add: sys_x86_mmu_early_init_def Let_def insn_mov_from_cr0_def insn_mov_to_cr0_def)
  fix n :: nat
  assume "n \<noteq> 16"
  then show "bit (cr0 (sys_x86_mmu_early_init s)) n = bit (cr0 s) n"
    unfolding cr by (simp add: bit_or_iff bit_int_wp)
qed

text \<open>C6 on the boot state, whose CR0 has bit 0 set and bit 16 clear.\<close>

theorem mmu_early_init_post_witness:
  "(0 :: nat) \<noteq> 16
   \<and> bit (cr0 (sys_x86_mmu_early_init cpu_boot)) 16
   \<and> msrs (sys_x86_mmu_early_init cpu_boot) 0x277 = 0x0007010600070106
   \<and> bit (cr0 (sys_x86_mmu_early_init cpu_boot)) 0 = bit (cr0 cpu_boot) 0"
  using mmu_early_init_post[of cpu_boot] by simp

subsection \<open>CPUID probe\<close>

text \<open>
  C7. \<^verbatim>\<open>sys_x86_get_cpuid_subleaf\<close> returns false for leaf 0, with the output
  structure and the whole CPU state (so also the record of executed instructions) as
  they were; for every nonzero leaf it executes \<^verbatim>\<open>cpuid\<close> once with that leaf and
  sub-leaf, stores the four registers the instruction produced in the output structure,
  and returns true.
\<close>

theorem get_cpuid_subleaf_contract:
  "sys_x86_get_cpuid_subleaf 0 subleaf out s = (False, out, s)
   \<and> (leaf \<noteq> 0 \<longrightarrow>
        sys_x86_get_cpuid_subleaf leaf subleaf out s =
          (case cpuid_table s leaf subleaf of (a, b, c, d) \<Rightarrow>
             (True, \<lparr>eax = a, ebx = b, ecx = c, edx = d\<rparr>,
              s\<lparr>executed := executed s @ [Ev_cpuid leaf subleaf]\<rparr>)))"
  by (simp add: sys_x86_get_cpuid_subleaf_def insn_cpuid_def split: prod.splits)

text \<open>C7 on a concrete CPU, for leaf 0 and for leaf 1.\<close>

theorem get_cpuid_subleaf_contract_witness:
  "(1 :: u32) \<noteq> 0
   \<and> sys_x86_get_cpuid_subleaf 0 0 \<lparr>eax = 1, ebx = 2, ecx = 3, edx = 4\<rparr> cpu_xsave_avx
       = (False, \<lparr>eax = 1, ebx = 2, ecx = 3, edx = 4\<rparr>, cpu_xsave_avx)
   \<and> sys_x86_get_cpuid_subleaf 1 0 \<lparr>eax = 1, ebx = 2, ecx = 3, edx = 4\<rparr> cpu_xsave_avx
       = (True, \<lparr>eax = 0x306A9, ebx = 0x100800, ecx = 0x7FBAE3BF, edx = 0xBFEBFBFF\<rparr>,
          cpu_xsave_avx\<lparr>executed := [Ev_cpuid 1 0]\<rparr>)"
  using get_cpuid_subleaf_contract[of 0 "\<lparr>eax = 1, ebx = 2, ecx = 3, edx = 4\<rparr>" cpu_xsave_avx 1]
  by (simp add: cpu_xsave_avx_def)

subsection \<open>Extended register size\<close>

text \<open>
  C8. For every CPU state (and whatever ECX holds when \<^verbatim>\<open>cpuid\<close> is issued),
  \<^verbatim>\<open>sys_x86_extended_register_size\<close> returns 512 when CPUID leaf 1 reports ECX
  bit 26 (XSAVE) clear, and otherwise 512 plus 256 exactly when XCR0 bit 2 (AVX) is set.
\<close>

theorem extended_register_size_value:
  "fst (sys_x86_extended_register_size ecx_in s) =
     (case cpuid_table s 1 ecx_in of (a, b, c, d) \<Rightarrow>
        if \<not> bit c 26 then 512 else 512 + (if bit (xcrs s 0) 2 then 256 else 0))"
proof -
  obtain a b c d where leaf1: "cpuid_table s 1 ecx_in = (a, b, c, d)"
    by (cases "cpuid_table s 1 ecx_in") auto
  show ?thesis
    by (simp add: sys_x86_extended_register_size_def insn_cpuid_def insn_xgetbv_def Let_def
        leaf1 test_mask_xsave test_mask_4 edx_eax_join)
qed

text \<open>C8 on a CPU with XSAVE and AVX (768) and on a CPU without XSAVE (512).\<close>

theorem extended_register_size_scenario_E:
  "fst (sys_x86_extended_register_size 0 cpu_xsave_avx) = 768
   \<and> fst (sys_x86_extended_register_size 0 cpu_legacy) = 512"
proof -
  have xsave: "bit (0x7FBAE3BF :: u32) 26" "\<not> bit (0xE3BD :: u32) 26" "bit (7 :: u64) 2"
    by (simp_all add: bit_iff_odd drop_bit_eq_div)
  show ?thesis
    using extended_register_size_value[of 0 cpu_xsave_avx]
      extended_register_size_value[of 0 cpu_legacy] xsave
    by (simp add: cpu_xsave_avx_def cpu_legacy_def)
qed

subsection \<open>PAT synchronisation\<close>

text \<open>
  C9. \<^verbatim>\<open>sys_x86_pat_sync(1)\<close> returns at once: the whole register state, the record
  of executed instructions included, is unchanged, so no MSR was read or written.  (No
  function of the source sends an inter-processor interrupt.)
\<close>

theorem pat_sync_single_cpu:
  "sys_x86_pat_sync 1 s = s"
  by (simp add: sys_x86_pat_sync_def)

subsection \<open>User copy\<close>

text \<open>
  C10. For every memory, \<open>dst\<close>, \<open>src\<close>, \<open>len\<close> and \<open>fault_return\<close>: whenever
  \<^verbatim>\<open>sys_x86_copy_to_or_from_user\<close> returns, the value returned is exactly
  \<^verbatim>\<open>(ssize_t)len\<close>, and it is not negative (it equals \<open>len\<close> as a number); it does
  return, with that value, whenever the two regions do not overlap and every byte of both
  is accessible; and the whole outcome, the memory after the call and the value returned,
  is the same for every \<open>fault_return\<close>.
\<close>

theorem copy_to_or_from_user_result:
  "(sys_x86_copy_to_or_from_user mem dst src len fr = Inr (mem', r)
      \<longrightarrow> r = len \<and> 0 \<le> sint r \<and> sint r = uint len)
   \<and> (\<not> regions_overlap dst src len \<and> range_accessible mem src (unat len)
        \<and> range_accessible mem dst (unat len)
      \<longrightarrow> (\<exists>m. sys_x86_copy_to_or_from_user mem dst src len fr = Inr (m, len)))
   \<and> sys_x86_copy_to_or_from_user mem dst src len fr
       = sys_x86_copy_to_or_from_user mem dst src len fr'"
proof -
  have value_returned: "r = len \<and> 0 \<le> sint r \<and> sint r = uint len"
    if ret: "sys_x86_copy_to_or_from_user mem dst src len fr = Inr (mem', r)"
  proof -
    from copy_returns_small_length[OF ret] have r: "r = len" and b: "len \<le> 0x1000000000000"
      by simp_all
    from b have "len < 2 ^ 63"
      by (simp add: word_le_def word_less_def)
    then have "sint len = uint len" by (simp add: sint_u64_cases)
    then show ?thesis using r by simp
  qed
  have returns: "\<exists>m. sys_x86_copy_to_or_from_user mem dst src len fr = Inr (m, len)"
    if ok: "\<not> regions_overlap dst src len \<and> range_accessible mem src (unat len)
        \<and> range_accessible mem dst (unat len)"
  proof -
    from ok obtain m where "copy_bytes mem dst src (unat len) = Inr m"
      using copy_bytes_returns[of mem src "unat len" dst] by blast
    then have "sys_x86_copy_to_or_from_user mem dst src len fr = Inr (m, len)"
      using ok by (simp add: sys_x86_copy_to_or_from_user_def builtin_memcpy_def)
    then show ?thesis by blast
  qed
  have indep: "sys_x86_copy_to_or_from_user mem dst src len fr
       = sys_x86_copy_to_or_from_user mem dst src len fr'"
    by (simp add: sys_x86_copy_to_or_from_user_def)
  from value_returned returns indep show ?thesis by blast
qed

text \<open>
  C10 on a copy of 4 bytes from \<^verbatim>\<open>0x1000\<close> to \<^verbatim>\<open>0x1800\<close> in the memory with the
  two lowest pages mapped.
\<close>

theorem copy_to_or_from_user_result_witness:
  "\<not> regions_overlap 0x1800 0x1000 4
   \<and> range_accessible low_page_memory 0x1000 (unat (4 :: u64))
   \<and> range_accessible low_page_memory 0x1800 (unat (4 :: u64))
   \<and> (\<exists>m. sys_x86_copy_to_or_from_user low_page_memory 0x1800 0x1000 4 0 = Inr (m, 4))
   \<and> (0::int) \<le> sint (4 :: u64) \<and> sint (4 :: u64) = uint (4 :: u64)
   \<and> sys_x86_copy_to_or_from_user low_page_memory 0x1800 0x1000 4 0
       = sys_x86_copy_to_or_from_user low_page_memory 0x1800 0x1000 4 0xFFFFFFFF80001000"
proof -
  have ok: "\<not> regions_overlap 0x1800 0x1000 4
     \<and> range_accessible low_page_memory 0x1000 (unat (4 :: u64))
     \<and> range_accessible low_page_memory 0x1800 (unat (4 :: u64))"
    unfolding unat_4
    by (simp add: regions_overlap_def accessible_def hw_canonical_def low_page_memory_def)
  note inst = copy_to_or_from_user_result[of low_page_memory "0x1800" "0x1000" 4 0 _ 4 "0xFFFFFFFF80001000"]
  from inst ok obtain m where
    m: "sys_x86_copy_to_or_from_user low_page_memory 0x1800 0x1000 4 0 = Inr (m, 4)"
    by blast
  from inst m have "(0::int) \<le> sint (4 :: u64) \<and> sint (4 :: u64) = uint (4 :: u64)"
    by blast
  moreover from inst have "sys_x86_copy_to_or_from_user low_page_memory 0x1800 0x1000 4 0
       = sys_x86_copy_to_or_from_user low_page_memory 0x1800 0x1000 4 0xFFFFFFFF80001000"
    by blast
  ultimately show ?thesis using ok m by blast
qed


end
